theory Spec2Isabelle
  imports Complex_Main
begin

section \<open>Scalars, enumerations and failures\<close>

text \<open>
  The kernels are templates over a scalar type \<open>T\<close> (real or complex). The embedding
  fixes \<open>T = complex\<close> with exact arithmetic; a real scalar is a complex number with
  zero imaginary part, on which \<open>cnj\<close> is the identity.
\<close>

text \<open>
  Modelled from the spec: \<open>enum class Side\<close> is declared in \<open>lapack/types.hpp\<close>, which is
  not among the sources; \<open>larf\<close> uses \<open>Side::Left\<close> and \<open>Side::Right\<close>. A variable of an
  enum class type can hold a value that is none of its enumerators (the check of \<open>larf\<close>
  and the tests' \<open>Side(0)\<close> rely on it), so the type has one constructor more for such a
  value.
\<close>

datatype Side = Left | Right | Side_other nat

text \<open>
  Modelled from the spec: \<open>enum class Op\<close> (\<open>lapack/types.hpp\<close>, not among the sources):
  the identity, the transpose and the conjugate transpose, and any other value
  (\<open>Op(0)\<close> in the tests).
\<close>

datatype Op = NoTrans | Trans | ConjTrans | Op_other nat

text \<open>
  \<open>InvalidArgument\<close> is the failure that \<open>blas_error_if\<close> signals;
  \<open>std_exception\<close> is the \<open>std::exception\<close> thrown by \<open>lassq\<close>.
\<close>

datatype error = InvalidArgument | std_exception

section \<open>Vector and matrix views\<close>

text \<open>
  A vector view is a list of scalars: \<open>size\<close> is its length and \<open>v[i]\<close> is \<open>v ! i\<close>.
  Reading outside the view is undefined behaviour in the source and an unspecified
  value here.
\<close>

text \<open>
  Modelled from the spec: the access policies of \<open>lapack/utils.hpp\<close>, which is not among
  the sources; \<open>larf\<close> names \<open>dense\<close> only.
\<close>

datatype access_policy = dense | other_policy

text \<open>
  Modelled from the spec: the matrix view type is a template parameter of \<open>larf\<close>. A matrix
  view has its dimensions, an element accessor \<open>C(i,j)\<close> and a write policy.
\<close>

record 'a matrix =
  nrows :: nat
  ncols :: nat
  entry :: "nat \<Rightarrow> nat \<Rightarrow> 'a"
  write_policy :: access_policy

text \<open>
  Modelled from the spec: \<open>access_denied\<close>, \<open>dense\<close> and \<open>write_policy\<close> come from
  \<open>lapack/utils.hpp\<close>, which is not among the sources. The spec requires dense write
  access to \<open>C\<close>: the write policy of a matrix is \<open>dense\<close> or some other policy, and
  dense access is denied by every policy but \<open>dense\<close>.
\<close>

definition access_denied :: "access_policy \<Rightarrow> access_policy \<Rightarrow> bool" where
  "access_denied a p = (p \<noteq> a)"

subsection \<open>The adapted view \<open>vector_that_starts_with_one\<close>\<close>

datatype 'a vector_that_starts_with_one = vector_that_starts_with_one (v_of: "'a list")

text \<open>\<open>T operator[](idx_t i) const\<close>\<close>

definition at_one :: "('a::one) vector_that_starts_with_one \<Rightarrow> nat \<Rightarrow> 'a" where
  "at_one v i = (if i = 0 then 1 else v_of v ! i)"

text \<open>\<open>size(const vector_that_starts_with_one<vector_t>& v)\<close>\<close>

definition size_one :: "'a vector_that_starts_with_one \<Rightarrow> nat" where
  "size_one v = length (v_of v)"

text \<open>
  Modelled from the spec: \<open>subvector\<close> of the underlying vector view belongs to the
  view abstraction, which is not among the sources. A slice specification is a pair
  \<open>(first, second)\<close> and selects the elements \<open>first, ..., second - 1\<close>.
\<close>

definition subvector :: "'a list \<Rightarrow> nat \<times> nat \<Rightarrow> 'a list" where
  "subvector v rows = take (snd rows - fst rows) (drop (fst rows) v)"

text \<open>
  \<open>subvector(const vector_that_starts_with_one<vector_t>& v, SliceSpec&& rows)\<close> is
  declared \<open>auto\<close>: it has one return type, deduced from its first \<open>return\<close> statement,
  \<open>vector_that_starts_with_one<vector_t>\<close>, and the second \<open>return\<close> statement must have
  that type as well. For a vector type whose own \<open>subvector\<close> is a plain view the function
  is ill-formed; where it is well-formed the value of the second branch is an adapted
  view too, here the adapted view of the sub-range of the underlying vector.
\<close>

definition subvector_one ::
  "'a vector_that_starts_with_one \<Rightarrow> nat \<times> nat \<Rightarrow> 'a vector_that_starts_with_one"
where
  "subvector_one v rows =
     (if fst rows = 0 then vector_that_starts_with_one (subvector (v_of v) rows)
      else vector_that_starts_with_one (subvector (v_of v) rows))"

section \<open>Level-2 kernels called by \<open>larf\<close>\<close>

text \<open>
  \<open>blas::gemv\<close> and \<open>blas::ger\<close> on abstract views are declared in \<open>tblas.hpp\<close>, which is
  not among the sources. A vector argument that is only read is passed as its element
  accessor (the kernels are templates over the vector type and use \<open>x[i]\<close> only); the
  destination is a list. \<open>larf\<close> passes the modes \<open>NoTrans\<close> and \<open>ConjTrans\<close> only, so the
  validation of the mode cannot fail in these calls and the kernels return no failure.
\<close>

text \<open>Modelled from the spec: the number of rows of \<open>op(A)\<close>, the length of \<open>op(A)\<cdot>x\<close>.\<close>

definition op_rows :: "Op \<Rightarrow> 'a matrix \<Rightarrow> nat" where
  "op_rows tr A = (if tr = NoTrans then nrows A else ncols A)"

text \<open>Modelled from the spec: the element \<open>i\<close> of the matrix-vector product \<open>op(A)\<cdot>x\<close>.\<close>

definition op_dot :: "Op \<Rightarrow> complex matrix \<Rightarrow> (nat \<Rightarrow> complex) \<Rightarrow> nat \<Rightarrow> complex" where
  "op_dot tr A x i =
     (if tr = NoTrans then (\<Sum>j<ncols A. entry A i j * x j)
      else if tr = Trans then (\<Sum>j<nrows A. entry A j i * x j)
      else (\<Sum>j<nrows A. cnj (entry A j i) * x j))"

text \<open>
  Modelled from the spec: \<open>blas::gemv\<close>, section 4.3: \<open>y := alpha\<cdot>op(A)\<cdot>x + beta\<cdot>y\<close>; a
  dimension \<open>m = 0\<close> or \<open>n = 0\<close> leaves \<open>y\<close> unchanged; when \<open>beta = 0\<close> the destination is not
  read and the result is written directly.
\<close>

definition gemv ::
  "Op \<Rightarrow> complex \<Rightarrow> complex matrix \<Rightarrow> (nat \<Rightarrow> complex) \<Rightarrow> complex \<Rightarrow> complex list \<Rightarrow> complex list"
where
  "gemv tr alpha A x beta y =
     (if nrows A = 0 \<or> ncols A = 0 then y
      else map (\<lambda>i. if i < op_rows tr A
                     then (if beta = 0 then alpha * op_dot tr A x i
                           else alpha * op_dot tr A x i + beta * y ! i)
                     else y ! i) [0..<length y])"

text \<open>Modelled from the spec: \<open>blas::ger\<close>, the rank-1 update \<open>A := A + alpha\<cdot>x\<cdot>y\<^sup>H\<close>.\<close>

definition ger ::
  "complex \<Rightarrow> (nat \<Rightarrow> complex) \<Rightarrow> (nat \<Rightarrow> complex) \<Rightarrow> complex matrix \<Rightarrow> complex matrix"
where
  "ger alpha x y A =
     A\<lparr>entry := (\<lambda>i j. if i < nrows A \<and> j < ncols A
                        then entry A i j + alpha * x i * cnj (y j)
                        else entry A i j)\<rparr>"

section \<open>\<open>larf\<close>: applying an elementary reflector\<close>

text \<open>
  \<open>larf\<close> receives \<open>tau\<close>, \<open>C\<close> and \<open>work\<close> by non-const reference: the state of a
  call is the triple of their values, together with the log of the kernel calls made so
  far, in order, each with its mode and scalars. A call that returns leaves a state
  (\<open>Inr\<close>); a call that throws leaves the failure and the state at the throw (\<open>Inl\<close>), so
  that a mutation before a throw would show.
\<close>

datatype kernel_call = Call_gemv Op complex complex | Call_ger complex

text \<open>
  Executing a kernel is an effect: the call computes the kernel's result and enters
  itself in the log. The log of \<open>larf\<close> is what the calls it executes leave there.
\<close>

definition call_gemv ::
  "Op \<Rightarrow> complex \<Rightarrow> complex matrix \<Rightarrow> (nat \<Rightarrow> complex) \<Rightarrow> complex \<Rightarrow> complex list
     \<Rightarrow> kernel_call list \<Rightarrow> complex list \<times> kernel_call list"
where
  "call_gemv tr alpha A x beta y lg =
     (gemv tr alpha A x beta y, lg @ [Call_gemv tr alpha beta])"

definition call_ger ::
  "complex \<Rightarrow> (nat \<Rightarrow> complex) \<Rightarrow> (nat \<Rightarrow> complex) \<Rightarrow> complex matrix
     \<Rightarrow> kernel_call list \<Rightarrow> complex matrix \<times> kernel_call list"
where
  "call_ger alpha x y A lg = (ger alpha x y A, lg @ [Call_ger alpha])"

record larf_state =
  tau_of :: complex
  C_of :: "complex matrix"
  work_of :: "complex list"
  calls :: "kernel_call list"

text \<open>
  Modelled from the spec: the macro \<open>blas_error_if\<close> is not among the sources. It
  signals \<open>InvalidArgument\<close> when its condition holds and does nothing otherwise. (The tests
  expect a failure only in a build that defines neither \<open>BLAS_ERROR_NDEBUG\<close> nor \<open>NDEBUG\<close>;
  the embedding is of such a build.)
\<close>

definition blas_error_if :: "bool \<Rightarrow> error option" where
  "blas_error_if cond = (if cond then Some InvalidArgument else None)"

definition larf ::
  "Side \<Rightarrow> complex list \<Rightarrow> complex \<Rightarrow> complex matrix \<Rightarrow> complex list
     \<Rightarrow> (error \<times> larf_state) + larf_state"
where
  "larf side v tau C work =
     (let one = 1; zero = 0;
          s0 = \<lparr>tau_of = tau, C_of = C, work_of = work, calls = []\<rparr> in
      case blas_error_if (side \<noteq> Left \<and> side \<noteq> Right) of
        Some e \<Rightarrow> Inl (e, s0)
      | None \<Rightarrow>
      (case blas_error_if (access_denied dense (write_policy C)) of
        Some e \<Rightarrow> Inl (e, s0)
      | None \<Rightarrow>
        let v2 = vector_that_starts_with_one v in
        if side = Left then
          let (work1, lg1) = call_gemv ConjTrans one C (at_one v2) zero work (calls s0);
              (C1, lg2) = call_ger (- tau) (at_one v2) (\<lambda>j. work1 ! j) C lg1
          in Inr \<lparr>tau_of = tau, C_of = C1, work_of = work1, calls = lg2\<rparr>
        else
          let (work1, lg1) = call_gemv NoTrans one C (at_one v2) zero work (calls s0);
              (C1, lg2) = call_ger (- tau) (\<lambda>i. work1 ! i) (at_one v2) C lg1
          in Inr \<lparr>tau_of = tau, C_of = C1, work_of = work1, calls = lg2\<rparr>))"

section \<open>\<open>lassq\<close>\<close>

text \<open>
  \<open>lassq(n, X, incx, scale, sumsq)\<close> updates \<open>scale\<close> and \<open>sumsq\<close> through references;
  its body is the single statement \<open>throw std::exception()\<close>.
\<close>

definition lassq ::
  "nat \<Rightarrow> complex list \<Rightarrow> nat \<Rightarrow> real \<Rightarrow> real \<Rightarrow> error + (real \<times> real)"
where
  "lassq n X incx scale sumsq = Inl std_exception"

section \<open>Level-2 and Level-3 kernels exercised by the corner-case tests\<close>

text \<open>
  The kernels called by \<open>test/blas/src/test_corner_cases.cpp\<close>
  (\<open>gemv\<close>, \<open>hemv\<close>, \<open>symv\<close>, \<open>gemm\<close>, \<open>symm\<close>, \<open>hemm\<close>, \<open>syrk\<close>, \<open>herk\<close>, \<open>syr2k\<close>, \<open>her2k\<close>
  on raw arrays) are declared in \<open>tblas.hpp\<close>, which is not among the sources; only their
  calls in the tests are. Each definition follows sections 4.1, 4.3 and 4.4 of the spec and
  takes the parameters of the call in the tests, with two abstractions:
  \<^item> an array is its element accessor (\<open>A i j\<close> for a matrix, \<open>x i\<close> for a vector); the
    addressing through layout, leading dimension and increment is not modelled, and the
    parameters \<open>lda\<close>, \<open>ldb\<close>, \<open>ldc\<close>, \<open>incx\<close>, \<open>incy\<close> and their validation are left out;
  \<^item> an element of the destination is \<open>None\<close> when it holds \<open>NaN\<close> (or was never set) and
    \<open>Some c\<close> when it holds the number \<open>c\<close>; arithmetic that reads \<open>NaN\<close> gives \<open>NaN\<close>. The
    operands that are only read hold numbers.
  Dimensions are of the unsigned type \<open>blas::size_t\<close>.
\<close>

text \<open>
  Modelled from the spec: \<open>enum class Layout\<close>, with any other value (\<open>Layout(0)\<close> in the
  tests).
\<close>

datatype Layout = ColMajor | RowMajor | Layout_other nat

text \<open>
  Modelled from the spec: \<open>enum class Uplo\<close>, the structure tag of a symmetric or Hermitian
  matrix, with any other value (\<open>Uplo(0)\<close> in the tests).
\<close>

datatype Uplo = Upper | Lower | Uplo_other nat

text \<open>
  Modelled from the spec: section 4.3, \<open>dest := t + beta\<cdot>dest\<close> for a product term \<open>t\<close>; when \<open>beta = 0\<close> the destination
  is not read and \<open>t\<close> is written directly.
\<close>

definition dest_update :: "complex \<Rightarrow> complex \<Rightarrow> complex option \<Rightarrow> complex option" where
  "dest_update t beta c = (if beta = 0 then Some t else map_option (\<lambda>c. t + beta * c) c)"

text \<open>
  Modelled from the spec: section 4.4, the imaginary part of a diagonal entry of a
  Hermitian result is forced to \<open>0\<close>.
\<close>

definition force_real :: "complex option \<Rightarrow> complex option" where
  "force_real c = map_option (\<lambda>z. complex_of_real (Re z)) c"

text \<open>
  Modelled from the spec: \<open>op(A)(i,j)\<close> for \<open>op\<close> the identity, the transpose or the
  conjugate transpose.
\<close>

definition op_entry :: "Op \<Rightarrow> (nat \<Rightarrow> nat \<Rightarrow> complex) \<Rightarrow> nat \<Rightarrow> nat \<Rightarrow> complex" where
  "op_entry tr A i j =
     (if tr = NoTrans then A i j else if tr = Trans then A j i else cnj (A j i))"

text \<open>
  Modelled from the spec: the structure tag says which half of a symmetric or Hermitian
  matrix is referenced.
\<close>

definition stored :: "Uplo \<Rightarrow> nat \<Rightarrow> nat \<Rightarrow> bool" where
  "stored uplo i j = (if uplo = Upper then i \<le> j else j \<le> i)"

text \<open>
  Modelled from the spec: the element \<open>(i,j)\<close> of a symmetric operand; the half that is not
  referenced is read through its mirror image.
\<close>

definition sym_entry :: "Uplo \<Rightarrow> (nat \<Rightarrow> nat \<Rightarrow> complex) \<Rightarrow> nat \<Rightarrow> nat \<Rightarrow> complex" where
  "sym_entry uplo A i j = (if stored uplo i j then A i j else A j i)"

text \<open>
  Modelled from the spec: the element \<open>(i,j)\<close> of a Hermitian operand; the half that is not
  referenced is read through its conjugated mirror image, and the imaginary part of the
  diagonal is not read.
\<close>

definition herm_entry :: "Uplo \<Rightarrow> (nat \<Rightarrow> nat \<Rightarrow> complex) \<Rightarrow> nat \<Rightarrow> nat \<Rightarrow> complex" where
  "herm_entry uplo A i j =
     (if i = j then complex_of_real (Re (A i i))
      else if stored uplo i j then A i j else cnj (A j i))"

text \<open>
  Modelled from the spec: section 4.1, an enum parameter outside its defined set is an
  invalid argument.
\<close>

definition valid_layout :: "Layout \<Rightarrow> bool" where
  "valid_layout layout = (layout = ColMajor \<or> layout = RowMajor)"

text \<open>Modelled from the spec: section 4.1, as for the layout.\<close>

definition valid_uplo :: "Uplo \<Rightarrow> bool" where
  "valid_uplo uplo = (uplo = Upper \<or> uplo = Lower)"

text \<open>Modelled from the spec: section 4.1, as for the layout.\<close>

definition valid_side :: "Side \<Rightarrow> bool" where
  "valid_side side = (side = Left \<or> side = Right)"

text \<open>Modelled from the spec: section 4.1, as for the layout.\<close>

definition valid_op :: "Op \<Rightarrow> bool" where
  "valid_op tr = (tr = NoTrans \<or> tr = Trans \<or> tr = ConjTrans)"

subsection \<open>Level 2: \<open>y := alpha\<cdot>op(A)\<cdot>x + beta\<cdot>y\<close>\<close>

text \<open>
  Modelled from the spec: \<open>gemv(layout, trans, m, n, alpha, A, lda, x, incx, beta, y, incy)\<close>,
  \<open>A\<close> of \<open>m\<close> rows and \<open>n\<close> columns; a dimension \<open>0\<close> leaves \<open>y\<close> unchanged.
\<close>

definition blas_gemv ::
  "Layout \<Rightarrow> Op \<Rightarrow> nat \<Rightarrow> nat \<Rightarrow> complex \<Rightarrow> (nat \<Rightarrow> nat \<Rightarrow> complex) \<Rightarrow> (nat \<Rightarrow> complex)
     \<Rightarrow> complex \<Rightarrow> (nat \<Rightarrow> complex option) \<Rightarrow> error + (nat \<Rightarrow> complex option)"
where
  "blas_gemv layout tr m n alpha A x beta y =
     (if \<not> valid_layout layout then Inl InvalidArgument
      else if \<not> valid_op tr then Inl InvalidArgument
      else if m = 0 \<or> n = 0 then Inr y
      else Inr (\<lambda>i. if i < (if tr = NoTrans then m else n)
                    then dest_update
                           (alpha * (\<Sum>j<(if tr = NoTrans then n else m). op_entry tr A i j * x j))
                           beta (y i)
                    else y i))"

text \<open>
  Modelled from the spec: \<open>hemv(layout, uplo, n, alpha, A, lda, x, incx, beta, y, incy)\<close>,
  \<open>A\<close> Hermitian \<open>n \<times> n\<close>.
\<close>

definition blas_hemv ::
  "Layout \<Rightarrow> Uplo \<Rightarrow> nat \<Rightarrow> complex \<Rightarrow> (nat \<Rightarrow> nat \<Rightarrow> complex) \<Rightarrow> (nat \<Rightarrow> complex)
     \<Rightarrow> complex \<Rightarrow> (nat \<Rightarrow> complex option) \<Rightarrow> error + (nat \<Rightarrow> complex option)"
where
  "blas_hemv layout uplo n alpha A x beta y =
     (if \<not> valid_layout layout then Inl InvalidArgument
      else if \<not> valid_uplo uplo then Inl InvalidArgument
      else if n = 0 then Inr y
      else Inr (\<lambda>i. if i < n
                    then dest_update (alpha * (\<Sum>j<n. herm_entry uplo A i j * x j)) beta (y i)
                    else y i))"

text \<open>
  Modelled from the spec: \<open>symv(layout, uplo, n, alpha, A, lda, x, incx, beta, y, incy)\<close>,
  \<open>A\<close> symmetric \<open>n \<times> n\<close>.
\<close>

definition blas_symv ::
  "Layout \<Rightarrow> Uplo \<Rightarrow> nat \<Rightarrow> complex \<Rightarrow> (nat \<Rightarrow> nat \<Rightarrow> complex) \<Rightarrow> (nat \<Rightarrow> complex)
     \<Rightarrow> complex \<Rightarrow> (nat \<Rightarrow> complex option) \<Rightarrow> error + (nat \<Rightarrow> complex option)"
where
  "blas_symv layout uplo n alpha A x beta y =
     (if \<not> valid_layout layout then Inl InvalidArgument
      else if \<not> valid_uplo uplo then Inl InvalidArgument
      else if n = 0 then Inr y
      else Inr (\<lambda>i. if i < n
                    then dest_update (alpha * (\<Sum>j<n. sym_entry uplo A i j * x j)) beta (y i)
                    else y i))"

subsection \<open>Level 3: \<open>C := alpha\<cdot>op(A)\<cdot>op(B) + beta\<cdot>C\<close> and its analogs\<close>

text \<open>
  Modelled from the spec:
  \<open>gemm(layout, transA, transB, m, n, k, alpha, A, lda, B, ldb, beta, C, ldc)\<close>, \<open>op(A)\<close> of
  size \<open>m \<times> k\<close> and \<open>op(B)\<close> of size \<open>k \<times> n\<close>; \<open>m = 0\<close> or \<open>n = 0\<close> leaves \<open>C\<close> untouched.
\<close>

definition blas_gemm ::
  "Layout \<Rightarrow> Op \<Rightarrow> Op \<Rightarrow> nat \<Rightarrow> nat \<Rightarrow> nat \<Rightarrow> complex \<Rightarrow> (nat \<Rightarrow> nat \<Rightarrow> complex)
     \<Rightarrow> (nat \<Rightarrow> nat \<Rightarrow> complex) \<Rightarrow> complex \<Rightarrow> (nat \<Rightarrow> nat \<Rightarrow> complex option)
     \<Rightarrow> error + (nat \<Rightarrow> nat \<Rightarrow> complex option)"
where
  "blas_gemm layout transA transB m n k alpha A B beta C =
     (if \<not> valid_layout layout then Inl InvalidArgument
      else if \<not> valid_op transA then Inl InvalidArgument
      else if \<not> valid_op transB then Inl InvalidArgument
      else if m = 0 \<or> n = 0 then Inr C
      else Inr (\<lambda>i j. if i < m \<and> j < n
                      then dest_update
                             (alpha * (\<Sum>l<k. op_entry transA A i l * op_entry transB B l j))
                             beta (C i j)
                      else C i j))"

text \<open>
  Modelled from the spec:
  \<open>symm(layout, side, uplo, m, n, alpha, A, lda, B, ldb, beta, C, ldc)\<close>. \<open>symm\<close> and \<open>hemm\<close> take
  no \<open>k\<close>: the symmetric or Hermitian operand \<open>A\<close> is \<open>m \<times> m\<close> on the left and \<open>n \<times> n\<close> on the
  right.
\<close>

definition blas_symm ::
  "Layout \<Rightarrow> Side \<Rightarrow> Uplo \<Rightarrow> nat \<Rightarrow> nat \<Rightarrow> complex \<Rightarrow> (nat \<Rightarrow> nat \<Rightarrow> complex)
     \<Rightarrow> (nat \<Rightarrow> nat \<Rightarrow> complex) \<Rightarrow> complex \<Rightarrow> (nat \<Rightarrow> nat \<Rightarrow> complex option)
     \<Rightarrow> error + (nat \<Rightarrow> nat \<Rightarrow> complex option)"
where
  "blas_symm layout side uplo m n alpha A B beta C =
     (if \<not> valid_layout layout then Inl InvalidArgument
      else if \<not> valid_side side then Inl InvalidArgument
      else if \<not> valid_uplo uplo then Inl InvalidArgument
      else if m = 0 \<or> n = 0 then Inr C
      else Inr (\<lambda>i j. if i < m \<and> j < n
                      then dest_update
                             (alpha * (if side = Left
                                       then (\<Sum>l<m. sym_entry uplo A i l * B l j)
                                       else (\<Sum>l<n. B i l * sym_entry uplo A l j)))
                             beta (C i j)
                      else C i j))"

text \<open>
  Modelled from the spec:
  \<open>hemm(layout, side, uplo, m, n, alpha, A, lda, B, ldb, beta, C, ldc)\<close>, as \<open>symm\<close> with a
  Hermitian \<open>A\<close>.
\<close>

definition blas_hemm ::
  "Layout \<Rightarrow> Side \<Rightarrow> Uplo \<Rightarrow> nat \<Rightarrow> nat \<Rightarrow> complex \<Rightarrow> (nat \<Rightarrow> nat \<Rightarrow> complex)
     \<Rightarrow> (nat \<Rightarrow> nat \<Rightarrow> complex) \<Rightarrow> complex \<Rightarrow> (nat \<Rightarrow> nat \<Rightarrow> complex option)
     \<Rightarrow> error + (nat \<Rightarrow> nat \<Rightarrow> complex option)"
where
  "blas_hemm layout side uplo m n alpha A B beta C =
     (if \<not> valid_layout layout then Inl InvalidArgument
      else if \<not> valid_side side then Inl InvalidArgument
      else if \<not> valid_uplo uplo then Inl InvalidArgument
      else if m = 0 \<or> n = 0 then Inr C
      else Inr (\<lambda>i j. if i < m \<and> j < n
                      then dest_update
                             (alpha * (if side = Left
                                       then (\<Sum>l<m. herm_entry uplo A i l * B l j)
                                       else (\<Sum>l<n. B i l * herm_entry uplo A l j)))
                             beta (C i j)
                      else C i j))"

text \<open>
  The rank-k updates reference the \<open>uplo\<close> half of the \<open>n \<times> n\<close> matrix \<open>C\<close> only. \<open>syrk\<close> and
  \<open>syr2k\<close> take \<open>NoTrans\<close> or \<open>Trans\<close>, \<open>herk\<close> and \<open>her2k\<close> take \<open>NoTrans\<close> or \<open>ConjTrans\<close> (the
  tests expect a failure naming \<open>trans\<close> otherwise); \<open>beta\<close> of \<open>herk\<close> and \<open>her2k\<close>, and
  \<open>alpha\<close> of \<open>herk\<close>, are real.
\<close>

text \<open>
  Modelled from the spec: \<open>syrk(layout, uplo, trans, n, k, alpha, A, lda, beta, C, ldc)\<close>,
  \<open>C := alpha\<cdot>A\<cdot>A\<^sup>T + beta\<cdot>C\<close> (\<open>NoTrans\<close>) or \<open>C := alpha\<cdot>A\<^sup>T\<cdot>A + beta\<cdot>C\<close> (\<open>Trans\<close>).
\<close>

definition blas_syrk ::
  "Layout \<Rightarrow> Uplo \<Rightarrow> Op \<Rightarrow> nat \<Rightarrow> nat \<Rightarrow> complex \<Rightarrow> (nat \<Rightarrow> nat \<Rightarrow> complex)
     \<Rightarrow> complex \<Rightarrow> (nat \<Rightarrow> nat \<Rightarrow> complex option) \<Rightarrow> error + (nat \<Rightarrow> nat \<Rightarrow> complex option)"
where
  "blas_syrk layout uplo tr n k alpha A beta C =
     (if \<not> valid_layout layout then Inl InvalidArgument
      else if \<not> valid_uplo uplo then Inl InvalidArgument
      else if tr \<noteq> NoTrans \<and> tr \<noteq> Trans then Inl InvalidArgument
      else if n = 0 then Inr C
      else Inr (\<lambda>i j. if i < n \<and> j < n \<and> stored uplo i j
                      then dest_update
                             (alpha * (\<Sum>l<k. op_entry tr A i l * op_entry tr A j l))
                             beta (C i j)
                      else C i j))"

text \<open>
  Modelled from the spec:
  \<open>syr2k(layout, uplo, trans, n, k, alpha, A, lda, B, ldb, beta, C, ldc)\<close>,
  \<open>C := alpha\<cdot>A\<cdot>B\<^sup>T + alpha\<cdot>B\<cdot>A\<^sup>T + beta\<cdot>C\<close> (\<open>NoTrans\<close>) or
  \<open>C := alpha\<cdot>A\<^sup>T\<cdot>B + alpha\<cdot>B\<^sup>T\<cdot>A + beta\<cdot>C\<close> (\<open>Trans\<close>).
\<close>

definition blas_syr2k ::
  "Layout \<Rightarrow> Uplo \<Rightarrow> Op \<Rightarrow> nat \<Rightarrow> nat \<Rightarrow> complex \<Rightarrow> (nat \<Rightarrow> nat \<Rightarrow> complex)
     \<Rightarrow> (nat \<Rightarrow> nat \<Rightarrow> complex) \<Rightarrow> complex \<Rightarrow> (nat \<Rightarrow> nat \<Rightarrow> complex option)
     \<Rightarrow> error + (nat \<Rightarrow> nat \<Rightarrow> complex option)"
where
  "blas_syr2k layout uplo tr n k alpha A B beta C =
     (if \<not> valid_layout layout then Inl InvalidArgument
      else if \<not> valid_uplo uplo then Inl InvalidArgument
      else if tr \<noteq> NoTrans \<and> tr \<noteq> Trans then Inl InvalidArgument
      else if n = 0 then Inr C
      else Inr (\<lambda>i j. if i < n \<and> j < n \<and> stored uplo i j
                      then dest_update
                             (alpha * (\<Sum>l<k. op_entry tr A i l * op_entry tr B j l
                                             + op_entry tr B i l * op_entry tr A j l))
                             beta (C i j)
                      else C i j))"

text \<open>
  Modelled from the spec: \<open>herk(layout, uplo, trans, n, k, alpha, A, lda, beta, C, ldc)\<close>,
  \<open>C := alpha\<cdot>A\<cdot>A\<^sup>H + beta\<cdot>C\<close> (\<open>NoTrans\<close>) or \<open>C := alpha\<cdot>A\<^sup>H\<cdot>A + beta\<cdot>C\<close> (\<open>ConjTrans\<close>),
  the diagonal forced real.
\<close>

definition blas_herk ::
  "Layout \<Rightarrow> Uplo \<Rightarrow> Op \<Rightarrow> nat \<Rightarrow> nat \<Rightarrow> real \<Rightarrow> (nat \<Rightarrow> nat \<Rightarrow> complex)
     \<Rightarrow> real \<Rightarrow> (nat \<Rightarrow> nat \<Rightarrow> complex option) \<Rightarrow> error + (nat \<Rightarrow> nat \<Rightarrow> complex option)"
where
  "blas_herk layout uplo tr n k alpha A beta C =
     (if \<not> valid_layout layout then Inl InvalidArgument
      else if \<not> valid_uplo uplo then Inl InvalidArgument
      else if tr \<noteq> NoTrans \<and> tr \<noteq> ConjTrans then Inl InvalidArgument
      else if n = 0 then Inr C
      else Inr (\<lambda>i j. if i < n \<and> j < n \<and> stored uplo i j
                      then (let c = dest_update
                                      (complex_of_real alpha
                                         * (\<Sum>l<k. op_entry tr A i l * cnj (op_entry tr A j l)))
                                      (complex_of_real beta) (C i j)
                            in if i = j then force_real c else c)
                      else C i j))"

text \<open>
  Modelled from the spec:
  \<open>her2k(layout, uplo, trans, n, k, alpha, A, lda, B, ldb, beta, C, ldc)\<close>,
  \<open>C := alpha\<cdot>A\<cdot>B\<^sup>H + conj(alpha)\<cdot>B\<cdot>A\<^sup>H + beta\<cdot>C\<close> (\<open>NoTrans\<close>) or
  \<open>C := alpha\<cdot>A\<^sup>H\<cdot>B + conj(alpha)\<cdot>B\<^sup>H\<cdot>A + beta\<cdot>C\<close> (\<open>ConjTrans\<close>), the diagonal forced
  real.
\<close>

definition blas_her2k ::
  "Layout \<Rightarrow> Uplo \<Rightarrow> Op \<Rightarrow> nat \<Rightarrow> nat \<Rightarrow> complex \<Rightarrow> (nat \<Rightarrow> nat \<Rightarrow> complex)
     \<Rightarrow> (nat \<Rightarrow> nat \<Rightarrow> complex) \<Rightarrow> real \<Rightarrow> (nat \<Rightarrow> nat \<Rightarrow> complex option)
     \<Rightarrow> error + (nat \<Rightarrow> nat \<Rightarrow> complex option)"
where
  "blas_her2k layout uplo tr n k alpha A B beta C =
     (if \<not> valid_layout layout then Inl InvalidArgument
      else if \<not> valid_uplo uplo then Inl InvalidArgument
      else if tr \<noteq> NoTrans \<and> tr \<noteq> ConjTrans then Inl InvalidArgument
      else if n = 0 then Inr C
      else Inr (\<lambda>i j. if i < n \<and> j < n \<and> stored uplo i j
                      then (let c = dest_update
                                      (\<Sum>l<k. alpha * op_entry tr A i l * cnj (op_entry tr B j l)
                                             + cnj alpha * op_entry tr B i l * cnj (op_entry tr A j l))
                                      (complex_of_real beta) (C i j)
                            in if i = j then force_real c else c)
                      else C i j))"

section \<open>Notions used to state the properties\<close>



text \<open>
  Two runs of a kernel that differ in the destination only: both return, and every
  position of the destination that the kernel references (\<open>i < d\<close>; \<open>i < m\<close>, \<open>j < n\<close> and
  \<open>P i j\<close>) holds the same number after both, and no \<open>NaN\<close>.
\<close>

definition overwritten1 ::
  "nat \<Rightarrow> error + (nat \<Rightarrow> complex option) \<Rightarrow> error + (nat \<Rightarrow> complex option) \<Rightarrow> bool"
where
  "overwritten1 d r r' =
     (case r of Inl e \<Rightarrow> False
      | Inr R \<Rightarrow> (case r' of Inl e \<Rightarrow> False
                 | Inr R' \<Rightarrow> (\<forall>i<d. R i = R' i \<and> R i \<noteq> None)))"

definition overwritten2 ::
  "nat \<Rightarrow> nat \<Rightarrow> (nat \<Rightarrow> nat \<Rightarrow> bool) \<Rightarrow> error + (nat \<Rightarrow> nat \<Rightarrow> complex option)
     \<Rightarrow> error + (nat \<Rightarrow> nat \<Rightarrow> complex option) \<Rightarrow> bool"
where
  "overwritten2 m n P r r' =
     (case r of Inl e \<Rightarrow> False
      | Inr R \<Rightarrow> (case r' of Inl e \<Rightarrow> False
                 | Inr R' \<Rightarrow> (\<forall>i<m. \<forall>j<n. P i j \<longrightarrow> R i j = R' i j \<and> R i j \<noteq> None)))"


text \<open>A \<open>2 \<times> 2\<close> matrix with rows \<open>(1, 2)\<close> and \<open>(3, 4)\<close> and dense write access.\<close>

definition C_example :: "complex matrix" where
  "C_example =
     \<lparr>nrows = 2, ncols = 2,
      entry = (\<lambda>i j. if i = 0 then (if j = 0 then 1 else 2) else (if j = 0 then 3 else 4)),
      write_policy = dense\<rparr>"

section \<open>Facts about the kernels\<close>



lemma gemv_nth:
  "0 < nrows A \<Longrightarrow> 0 < ncols A \<Longrightarrow> i < op_rows tr A \<Longrightarrow> i < length y \<Longrightarrow>
   gemv tr alpha A x 0 y ! i = alpha * op_dot tr A x i"
  by (simp add: gemv_def)


lemma ger_entry:
  "i < nrows A \<Longrightarrow> j < ncols A \<Longrightarrow> entry (ger a x y A) i j = entry A i j + a * x i * cnj (y j)"
  by (simp add: ger_def)











lemma larf_Left:
  assumes "\<not> access_denied dense (write_policy C)"
  shows "larf Left v tau C work =
     Inr \<lparr>tau_of = tau,
          C_of = ger (- tau) (at_one (vector_that_starts_with_one v))
                   (\<lambda>j. gemv ConjTrans 1 C (at_one (vector_that_starts_with_one v)) 0 work ! j) C,
          work_of = gemv ConjTrans 1 C (at_one (vector_that_starts_with_one v)) 0 work,
          calls = [Call_gemv ConjTrans 1 0, Call_ger (- tau)]\<rparr>"
  using assms by (simp add: larf_def blas_error_if_def Let_def call_gemv_def call_ger_def)

lemma larf_Right:
  assumes "\<not> access_denied dense (write_policy C)"
  shows "larf Right v tau C work =
     Inr \<lparr>tau_of = tau,
          C_of = ger (- tau)
                   (\<lambda>i. gemv NoTrans 1 C (at_one (vector_that_starts_with_one v)) 0 work ! i)
                   (at_one (vector_that_starts_with_one v)) C,
          work_of = gemv NoTrans 1 C (at_one (vector_that_starts_with_one v)) 0 work,
          calls = [Call_gemv NoTrans 1 0, Call_ger (- tau)]\<rparr>"
  using assms by (simp add: larf_def blas_error_if_def Let_def call_gemv_def call_ger_def)





subsection \<open>The kernels of the corner-case tests\<close>









lemma gemv_beta0:
  assumes "valid_layout layout" "valid_op tr" "0 < m" "0 < n"
  shows "overwritten1 (if tr = NoTrans then m else n)
           (blas_gemv layout tr m n alpha A x 0 y) (blas_gemv layout tr m n alpha A x 0 y')"
  using assms by (simp add: overwritten1_def blas_gemv_def dest_update_def)

lemma hemv_beta0:
  assumes "valid_layout layout" "valid_uplo uplo" "0 < n"
  shows "overwritten1 n (blas_hemv layout uplo n alpha A x 0 y) (blas_hemv layout uplo n alpha A x 0 y')"
  using assms by (simp add: overwritten1_def blas_hemv_def dest_update_def)

lemma symv_beta0:
  assumes "valid_layout layout" "valid_uplo uplo" "0 < n"
  shows "overwritten1 n (blas_symv layout uplo n alpha A x 0 y) (blas_symv layout uplo n alpha A x 0 y')"
  using assms by (simp add: overwritten1_def blas_symv_def dest_update_def)

lemma gemm_beta0:
  assumes "valid_layout layout" "valid_op transA" "valid_op transB" "0 < m" "0 < n"
  shows "overwritten2 m n (\<lambda>i j. True)
           (blas_gemm layout transA transB m n k alpha A B 0 C)
           (blas_gemm layout transA transB m n k alpha A B 0 C')"
  using assms by (simp add: overwritten2_def blas_gemm_def dest_update_def)

lemma symm_beta0:
  assumes "valid_layout layout" "valid_side side" "valid_uplo uplo" "0 < m" "0 < n"
  shows "overwritten2 m n (\<lambda>i j. True)
           (blas_symm layout side uplo m n alpha A B 0 C)
           (blas_symm layout side uplo m n alpha A B 0 C')"
  using assms by (simp add: overwritten2_def blas_symm_def dest_update_def)

lemma hemm_beta0:
  assumes "valid_layout layout" "valid_side side" "valid_uplo uplo" "0 < m" "0 < n"
  shows "overwritten2 m n (\<lambda>i j. True)
           (blas_hemm layout side uplo m n alpha A B 0 C)
           (blas_hemm layout side uplo m n alpha A B 0 C')"
  using assms by (simp add: overwritten2_def blas_hemm_def dest_update_def)

lemma syrk_beta0:
  assumes "valid_layout layout" "valid_uplo uplo" "tr = NoTrans \<or> tr = Trans" "0 < n"
  shows "overwritten2 n n (stored uplo)
           (blas_syrk layout uplo tr n k alpha A 0 C) (blas_syrk layout uplo tr n k alpha A 0 C')"
  using assms by (auto simp add: overwritten2_def blas_syrk_def dest_update_def)

lemma syr2k_beta0:
  assumes "valid_layout layout" "valid_uplo uplo" "tr = NoTrans \<or> tr = Trans" "0 < n"
  shows "overwritten2 n n (stored uplo)
           (blas_syr2k layout uplo tr n k alpha A B 0 C)
           (blas_syr2k layout uplo tr n k alpha A B 0 C')"
  using assms by (auto simp add: overwritten2_def blas_syr2k_def dest_update_def)

lemma herk_beta0:
  assumes "valid_layout layout" "valid_uplo uplo" "tr = NoTrans \<or> tr = ConjTrans" "0 < n"
  shows "overwritten2 n n (stored uplo)
           (blas_herk layout uplo tr n k ralpha A 0 C) (blas_herk layout uplo tr n k ralpha A 0 C')"
  using assms by (auto simp add: overwritten2_def blas_herk_def dest_update_def force_real_def Let_def)

lemma her2k_beta0:
  assumes "valid_layout layout" "valid_uplo uplo" "tr = NoTrans \<or> tr = ConjTrans" "0 < n"
  shows "overwritten2 n n (stored uplo)
           (blas_her2k layout uplo tr n k alpha A B 0 C)
           (blas_her2k layout uplo tr n k alpha A B 0 C')"
  using assms by (auto simp add: overwritten2_def blas_her2k_def dest_update_def force_real_def Let_def)

section \<open>The adapted view\<close>

text \<open>
  C2. The adapted view of \<open>v\<close> has the length of \<open>v\<close>; its element \<open>0\<close> is the unit \<open>1\<close>
  whatever \<open>v\<close> stores (also in another vector \<open>v'\<close>), and every index \<open>i\<close> with
  \<open>1 \<le> i \<le> n - 1\<close> reads \<open>v[i]\<close>.
\<close>

theorem vector_that_starts_with_one_view:
  "size_one (vector_that_starts_with_one v) = length v
   \<and> at_one (vector_that_starts_with_one v) 0 = 1
   \<and> at_one (vector_that_starts_with_one v') 0 = at_one (vector_that_starts_with_one v) 0
   \<and> (\<forall>i. 1 \<le> i \<and> i \<le> length v - 1 \<longrightarrow> at_one (vector_that_starts_with_one v) i = v ! i)"
  by (simp add: size_one_def at_one_def)

theorem vector_that_starts_with_one_view_witness:
  "size_one (vector_that_starts_with_one [2, 7 :: complex]) = 2
   \<and> at_one (vector_that_starts_with_one [2, 7 :: complex]) 0 = 1
   \<and> at_one (vector_that_starts_with_one [2, 7 :: complex]) 1 = 7"
  using vector_that_starts_with_one_view [of "[2, 7 :: complex]" "[]"]
  by simp

text \<open>
  C6. The claim, that a sub-range whose first index is not \<open>0\<close> is a plain sub-view of the
  underlying vector with no override at index \<open>0\<close>, fails on the code: whatever the
  sub-range, the result is an adapted view and its element \<open>0\<close> reads \<open>1\<close>. For the adapted
  view of \<open>(5, 6, 7)\<close> and the sub-range \<open>(1, 3)\<close> the result is the adapted view of \<open>(6, 7)\<close>;
  its element \<open>0\<close> reads \<open>1\<close>, where the plain sub-view would read \<open>6\<close>.
\<close>

theorem subvector_one_reads_one:
  "at_one (subvector_one v rows) 0 = 1
   \<and> subvector_one (vector_that_starts_with_one [5, 6, 7 :: complex]) (1, 3)
       = vector_that_starts_with_one [6, 7]
   \<and> at_one (subvector_one (vector_that_starts_with_one [5, 6, 7 :: complex]) (1, 3)) 0 = 1
   \<and> subvector [5, 6, 7 :: complex] (1, 3) ! 0 = 6"
  by (simp add: subvector_one_def subvector_def at_one_def)

section \<open>\<open>larf\<close>\<close>

text \<open>
  C1. With dense write access to \<open>C\<close>, \<open>larf\<close> with \<open>side = Left\<close> calls \<open>gemv\<close> with
  \<open>op = ConjTrans\<close>, \<open>alpha = 1\<close>, \<open>beta = 0\<close> on \<open>C\<close> and the adapted view \<open>v2\<close> of \<open>v\<close> into
  \<open>work\<close>, then \<open>ger\<close> with scalar \<open>- tau\<close> on \<open>v2\<close>, \<open>work\<close> and \<open>C\<close>: for positive dimensions
  \<open>work = C\<^sup>H\<cdot>v2\<close>, and every element of \<open>C\<close> becomes \<open>C(i,j) - tau\<cdot>v2[i]\<cdot>conj(work[j])\<close>.
  With \<open>side = Right\<close> the \<open>gemv\<close> call has \<open>op = NoTrans\<close>, \<open>work = C\<cdot>v2\<close>, and every element
  of \<open>C\<close> becomes \<open>C(i,j) - tau\<cdot>work[i]\<cdot>conj(v2[j])\<close>.
\<close>

theorem larf_two_kernel_calls:
  assumes "\<not> access_denied dense (write_policy C)"
  shows "(let x = at_one (vector_that_starts_with_one v);
              work1 = gemv ConjTrans 1 C x 0 work;
              C1 = ger (- tau) x (\<lambda>j. work1 ! j) C
          in larf Left v tau C work =
               Inr \<lparr>tau_of = tau, C_of = C1, work_of = work1,
                    calls = [Call_gemv ConjTrans 1 0, Call_ger (- tau)]\<rparr>
             \<and> (0 < nrows C \<and> 0 < ncols C \<and> length work = ncols C \<longrightarrow>
                  (\<forall>j<ncols C. work1 ! j = (\<Sum>i<nrows C. cnj (entry C i j) * x i)))
             \<and> (\<forall>i<nrows C. \<forall>j<ncols C.
                  entry C1 i j = entry C i j - tau * x i * cnj (work1 ! j)))
       \<and> (let x = at_one (vector_that_starts_with_one v);
              work1 = gemv NoTrans 1 C x 0 work;
              C1 = ger (- tau) (\<lambda>i. work1 ! i) x C
          in larf Right v tau C work =
               Inr \<lparr>tau_of = tau, C_of = C1, work_of = work1,
                    calls = [Call_gemv NoTrans 1 0, Call_ger (- tau)]\<rparr>
             \<and> (0 < nrows C \<and> 0 < ncols C \<and> length work = nrows C \<longrightarrow>
                  (\<forall>i<nrows C. work1 ! i = (\<Sum>j<ncols C. entry C i j * x j)))
             \<and> (\<forall>i<nrows C. \<forall>j<ncols C.
                  entry C1 i j = entry C i j - tau * work1 ! i * cnj (x j)))"
  unfolding Let_def
  using assms
  by (simp add: larf_Left larf_Right gemv_nth op_rows_def ger_entry) (simp add: op_dot_def)

theorem larf_two_kernel_calls_witness:
  "\<exists>s. larf Left [9, 2] (1 / 2) C_example [0, 0] = Inr s
      \<and> work_of s = [7, 10]
      \<and> entry (C_of s) 0 0 = - 5 / 2 \<and> entry (C_of s) 1 1 = - 6
      \<and> calls s = [Call_gemv ConjTrans 1 0, Call_ger (- (1 / 2))]"
  using larf_two_kernel_calls [of C_example "[9, 2]" "[0, 0]" "1 / 2"]
  by (simp add: Let_def C_example_def access_denied_def gemv_def op_rows_def op_dot_def
        at_one_def ger_def numeral_2_eq_2)



text \<open>
  C4. When \<open>side\<close> is neither \<open>Left\<close> nor \<open>Right\<close>, or dense write access to \<open>C\<close> is denied,
  \<open>larf\<close> fails with \<open>InvalidArgument\<close>; at the failure no kernel has been called and
  \<open>tau\<close>, \<open>C\<close> and \<open>work\<close> are as they were passed.
\<close>

theorem larf_invalid_argument:
  assumes "(side \<noteq> Left \<and> side \<noteq> Right) \<or> access_denied dense (write_policy C)"
  shows "larf side v tau C work =
           Inl (InvalidArgument, \<lparr>tau_of = tau, C_of = C, work_of = work, calls = []\<rparr>)"
  using assms by (auto simp add: larf_def blas_error_if_def)

theorem larf_invalid_argument_witness:
  "larf (Side_other 0) [9, 2] (1 / 2) C_example [0, 0] =
     Inl (InvalidArgument,
          \<lparr>tau_of = 1 / 2, C_of = C_example, work_of = [0, 0], calls = []\<rparr>)
   \<and> larf Left [9, 2] (1 / 2) (C_example\<lparr>write_policy := other_policy\<rparr>) [0, 0] =
     Inl (InvalidArgument,
          \<lparr>tau_of = 1 / 2, C_of = C_example\<lparr>write_policy := other_policy\<rparr>,
           work_of = [0, 0], calls = []\<rparr>)"
  using larf_invalid_argument [of "Side_other 0" C_example "[9, 2]" "1 / 2" "[0, 0]"]
    larf_invalid_argument [of Left "C_example\<lparr>write_policy := other_policy\<rparr>"
      "[9, 2]" "1 / 2" "[0, 0]"]
  by (simp add: access_denied_def)

text \<open>
  C10. \<open>larf\<close> never writes \<open>tau\<close>: after every call that returns, \<open>tau\<close> has the value it
  had before the call.
\<close>

theorem larf_tau_unchanged:
  "larf side v tau C work = Inr s \<Longrightarrow> tau_of s = tau"
  by (auto simp add: larf_def blas_error_if_def Let_def call_gemv_def call_ger_def
        split: if_splits)

theorem larf_tau_unchanged_witness:
  "larf Right [9, 2] (1 / 2) C_example [0, 0] =
     Inr \<lparr>tau_of = 1 / 2,
          C_of = ger (- (1 / 2)) (\<lambda>i. gemv NoTrans 1 C_example
                   (at_one (vector_that_starts_with_one [9, 2])) 0 [0, 0] ! i)
                   (at_one (vector_that_starts_with_one [9, 2])) C_example,
          work_of = gemv NoTrans 1 C_example (at_one (vector_that_starts_with_one [9, 2])) 0 [0, 0],
          calls = [Call_gemv NoTrans 1 0, Call_ger (- (1 / 2))]\<rparr>
   \<and> tau_of \<lparr>tau_of = 1 / 2,
          C_of = ger (- (1 / 2)) (\<lambda>i. gemv NoTrans 1 C_example
                   (at_one (vector_that_starts_with_one [9, 2])) 0 [0, 0] ! i)
                   (at_one (vector_that_starts_with_one [9, 2])) C_example,
          work_of = gemv NoTrans 1 C_example (at_one (vector_that_starts_with_one [9, 2])) 0 [0, 0],
          calls = [Call_gemv NoTrans 1 0, Call_ger (- (1 / 2))]\<rparr> = 1 / 2"
proof -
  have acc: "\<not> access_denied dense (write_policy C_example)"
    by (simp add: C_example_def access_denied_def)
  have r: "larf Right [9, 2] (1 / 2) C_example [0, 0] =
     Inr \<lparr>tau_of = 1 / 2,
          C_of = ger (- (1 / 2)) (\<lambda>i. gemv NoTrans 1 C_example
                   (at_one (vector_that_starts_with_one [9, 2])) 0 [0, 0] ! i)
                   (at_one (vector_that_starts_with_one [9, 2])) C_example,
          work_of = gemv NoTrans 1 C_example (at_one (vector_that_starts_with_one [9, 2])) 0 [0, 0],
          calls = [Call_gemv NoTrans 1 0, Call_ger (- (1 / 2))]\<rparr>"
    by (rule larf_Right [OF acc])
  from r larf_tau_unchanged [OF r] show ?thesis by blast
qed




section \<open>Corner cases of the Level-2 and Level-3 kernels\<close>




text \<open>
  C9. For every Level-2 and Level-3 kernel with a \<open>beta\<close> parameter, called with valid mode
  parameters, \<open>beta = 0\<close> and positive dimensions, two runs that differ only in the contents
  of the destination before the call (\<open>y\<close> and \<open>y'\<close>, \<open>C\<close> and \<open>C'\<close>) both return and leave the
  same numbers, and no \<open>NaN\<close>, in every position of the destination that the kernel
  references.
\<close>

theorem beta_zero_destination_not_read:
  assumes "valid_layout layout" and "valid_uplo uplo" and "valid_side side"
    and "valid_op tr" and "valid_op transA" and "valid_op transB"
    and "trS = NoTrans \<or> trS = Trans" and "trH = NoTrans \<or> trH = ConjTrans"
    and "0 < m" and "0 < n"
  shows "overwritten1 (if tr = NoTrans then m else n)
           (blas_gemv layout tr m n alpha A x 0 y) (blas_gemv layout tr m n alpha A x 0 y')
       \<and> overwritten1 n
           (blas_hemv layout uplo n alpha A x 0 y) (blas_hemv layout uplo n alpha A x 0 y')
       \<and> overwritten1 n
           (blas_symv layout uplo n alpha A x 0 y) (blas_symv layout uplo n alpha A x 0 y')
       \<and> overwritten2 m n (\<lambda>i j. True)
           (blas_gemm layout transA transB m n k alpha A B 0 C)
           (blas_gemm layout transA transB m n k alpha A B 0 C')
       \<and> overwritten2 m n (\<lambda>i j. True)
           (blas_symm layout side uplo m n alpha A B 0 C)
           (blas_symm layout side uplo m n alpha A B 0 C')
       \<and> overwritten2 m n (\<lambda>i j. True)
           (blas_hemm layout side uplo m n alpha A B 0 C)
           (blas_hemm layout side uplo m n alpha A B 0 C')
       \<and> overwritten2 n n (stored uplo)
           (blas_syrk layout uplo trS n k alpha A 0 C)
           (blas_syrk layout uplo trS n k alpha A 0 C')
       \<and> overwritten2 n n (stored uplo)
           (blas_syr2k layout uplo trS n k alpha A B 0 C)
           (blas_syr2k layout uplo trS n k alpha A B 0 C')
       \<and> overwritten2 n n (stored uplo)
           (blas_herk layout uplo trH n k ralpha A 0 C)
           (blas_herk layout uplo trH n k ralpha A 0 C')
       \<and> overwritten2 n n (stored uplo)
           (blas_her2k layout uplo trH n k alpha A B 0 C)
           (blas_her2k layout uplo trH n k alpha A B 0 C')"
  using assms
  by (simp add: gemv_beta0 hemv_beta0 symv_beta0 gemm_beta0 symm_beta0 hemm_beta0
        syrk_beta0 syr2k_beta0 herk_beta0 her2k_beta0)

theorem beta_zero_destination_not_read_witness:
  "overwritten1 2
     (blas_gemv ColMajor NoTrans 2 2 1 (\<lambda>i j. 1) (\<lambda>j. 1) 0 (\<lambda>i. None))
     (blas_gemv ColMajor NoTrans 2 2 1 (\<lambda>i j. 1) (\<lambda>j. 1) 0 (\<lambda>i. Some 1))
   \<and> overwritten1 2
     (blas_hemv ColMajor Upper 2 1 (\<lambda>i j. 1) (\<lambda>j. 1) 0 (\<lambda>i. None))
     (blas_hemv ColMajor Upper 2 1 (\<lambda>i j. 1) (\<lambda>j. 1) 0 (\<lambda>i. Some 1))
   \<and> blas_gemv ColMajor NoTrans 2 2 1 (\<lambda>i j. 1) (\<lambda>j. 1) 0 (\<lambda>i. None)
       = Inr (\<lambda>i. if i < 2 then Some 2 else None)"
  using beta_zero_destination_not_read
    [where layout = ColMajor and uplo = Upper and side = Left and tr = NoTrans
       and transA = NoTrans and transB = NoTrans and trS = NoTrans and trH = NoTrans
       and m = 2 and n = 2 and k = 0 and alpha = 1 and ralpha = 1
       and A = "\<lambda>i j. 1" and B = "\<lambda>i j. 1" and x = "\<lambda>j. 1"
       and y = "\<lambda>i. None" and y' = "\<lambda>i. Some 1"
       and C = "\<lambda>i j. None" and C' = "\<lambda>i j. Some 1"]
  by (simp add: valid_layout_def valid_uplo_def valid_side_def valid_op_def blas_gemv_def
        dest_update_def op_entry_def numeral_2_eq_2 cong: if_cong)

section \<open>\<open>lassq\<close>\<close>

text \<open>
  C7. \<open>lassq\<close> throws for every \<open>n\<close>, \<open>X\<close>, \<open>incx\<close>, \<open>scale\<close> and \<open>sumsq\<close>, and computes nothing:
  no updated \<open>scale\<close> or \<open>sumsq\<close> is ever returned.
\<close>

theorem lassq_throws:
  "lassq n X incx scale sumsq = Inl std_exception
   \<and> lassq n X incx scale sumsq \<noteq> Inr r"
  by (simp add: lassq_def)

end
